theory Spec2Isabelle
  imports Complex_Main "HOL-Library.Word"
begin

section \<open>Smart mirror: frame acquisition, thermal conversion and the display loop\<close>

text \<open>
  A shallow embedding of \<^verbatim>\<open>src/main.py\<close>. Python numbers that are floats in the
  program (clock readings, sensor values, temperatures) are modelled as reals; where a
  result depends on how a float operation rounds, the rounding is a parameter or is named as
  an idealisation. Effects are explicit: the queue, the numpy buffers, the Tk widgets and the
  calls made to the clock and the sensors are fields of a state that every operation
  returns updated.
\<close>

subsection \<open>Outcomes of a call\<close>

datatype exn =
    NullPointerAccess   \<comment> \<open>ctypes: \<^verbatim>\<open>ValueError: NULL pointer access\<close>\<close>
  | SensorError         \<comment> \<open>whatever \<^verbatim>\<open>sense()\<close> of a sensor raises\<close>
  | TypeError           \<comment> \<open>subscripting the integer \<^verbatim>\<open>0\<close> held in \<^verbatim>\<open>data_set\<close>\<close>
  | AttributeError      \<comment> \<open>\<^verbatim>\<open>items()\<close> of the integer \<^verbatim>\<open>0\<close>\<close>
  | Empty               \<comment> \<open>\<^verbatim>\<open>queue.Empty\<close>\<close>
  | CvError             \<comment> \<open>\<^verbatim>\<open>cv2.error\<close>: a failed assertion inside OpenCV\<close>

datatype 'a outcome =
    Returns 'a
  | Raises exn
  | Blocks              \<comment> \<open>the call waits for ever: nothing in the program can wake it\<close>

subsection \<open>Settings (lines 31 to 39)\<close>

record settings_t =
  use_humidity_sensor :: bool
  display_host_ip :: bool
  display_sleep_timer :: bool
  display_debug_panel :: bool
  sleep_timeout_sec :: real
  screen_max_frame_time_sec :: real
  ambient_temp_delay_sec :: real

definition settings :: settings_t where
  "settings = \<lparr> use_humidity_sensor = True,
                display_host_ip = True,
                display_sleep_timer = True,
                display_debug_panel = True,
                sleep_timeout_sec = 10,
                screen_max_frame_time_sec = 33 / 1000,
                ambient_temp_delay_sec = 5 \<rparr>"

subsection \<open>The standard library's bounded queue\<close>

text \<open>
  \<^verbatim>\<open>queue.Queue(maxsize)\<close>: a size limit applies only when \<^verbatim>\<open>maxsize > 0\<close>.
  \<^verbatim>\<open>put(item)\<close> with the default \<^verbatim>\<open>block=True, timeout=None\<close> waits while the queue
  is full; \<^verbatim>\<open>get(True, timeout)\<close> raises \<^verbatim>\<open>Empty\<close> when nothing arrives in time.
  The head of the list is the oldest item.
\<close>

record 'a Queue =
  maxsize :: int
  queue :: "'a list"

definition Queue_init :: "int \<Rightarrow> 'a Queue" where
  "Queue_init m = \<lparr> maxsize = m, queue = [] \<rparr>"

definition qsize :: "'a Queue \<Rightarrow> int" where
  "qsize Q = int (length (queue Q))"

definition full :: "'a Queue \<Rightarrow> bool" where
  "full Q \<longleftrightarrow> 0 < maxsize Q \<and> maxsize Q \<le> qsize Q"

definition put :: "'a \<Rightarrow> 'a Queue \<Rightarrow> 'a Queue outcome" where
  "put item Q = (if full Q then Blocks else Returns (Q\<lparr> queue := queue Q @ [item] \<rparr>))"

definition get :: "'a Queue \<Rightarrow> ('a \<times> 'a Queue) outcome" where
  "get Q = (case queue Q of
              [] \<Rightarrow> Raises Empty
            | item # rest \<Rightarrow> Returns (item, Q\<lparr> queue := rest \<rparr>))"

subsection \<open>Driver memory and numpy views\<close>

text \<open>
  Memory is addressed in 16-bit cells. Address \<open>0\<close> is the NULL pointer. A numpy array
  made by \<^verbatim>\<open>np.frombuffer(...).reshape(height, width)\<close> owns no data: it is a view, a base
  address with a shape, and reading it reads the memory of that moment.
\<close>

type_synonym addr = nat
type_synonym heap = "addr \<Rightarrow> 16 word"

record ndarray =
  base :: addr
  rows :: nat
  cols :: nat

definition cells :: "ndarray \<Rightarrow> addr list" where
  "cells a = [base a ..< base a + rows a * cols a]"

definition read_view :: "heap \<Rightarrow> ndarray \<Rightarrow> 16 word list list" where
  "read_view h a = map (\<lambda>r. map (\<lambda>c. h (base a + r * cols a + c)) [0 ..< cols a]) [0 ..< rows a]"

definition write_cells :: "heap \<Rightarrow> addr \<Rightarrow> 16 word list \<Rightarrow> heap" where
  "write_cells h b xs = (\<lambda>a. if b \<le> a \<and> a < b + length xs then xs ! (a - b) else h a)"

subsection \<open>The frame callback (lines 41 to 66)\<close>

text \<open>The fields of \<^verbatim>\<open>uvc_frame\<close> the callback reads, as the Python integers ctypes gives.\<close>

record uvc_frame =
  data :: addr
  data_bytes :: nat
  width :: nat
  height :: nat

definition BUF_SIZE :: int where
  "BUF_SIZE = 10"

definition q :: "ndarray Queue" where
  "q = Queue_init BUF_SIZE"

text \<open>
  \<^verbatim>\<open>py_frame_callback(frame, userptr)\<close> acts on the global queue, passed here as \<open>Q\<close>;
  it returns \<^verbatim>\<open>None\<close>, so the outcome carries the queue it leaves. Dereferencing the cast
  pointer (\<^verbatim>\<open>array_pointer.contents\<close>) raises on a NULL \<^verbatim>\<open>data\<close>; the frame is wrapped,
  not copied (the source's comment: \<^verbatim>\<open>no copy\<close>).
\<close>

definition py_frame_callback :: "uvc_frame \<Rightarrow> ndarray Queue \<Rightarrow> ndarray Queue outcome" where
  "py_frame_callback frame Q =
     (if data frame = 0 then Raises NullPointerAccess
      else
        let d = \<lparr> base = data frame, rows = height frame, cols = width frame \<rparr> in
        if data_bytes frame \<noteq> 2 * width frame * height frame then Returns Q
        else if \<not> full Q then put d Q
        else Returns Q)"

text \<open>
  \<^verbatim>\<open>PTR_PY_FRAME_CALLBACK = CFUNCTYPE(None, ...)(py_frame_callback)\<close> is what the driver
  calls. An exception that leaves a ctypes callback is printed and dropped; the raise in
  \<open>py_frame_callback\<close> comes before any change to the queue.
\<close>

definition PTR_PY_FRAME_CALLBACK :: "uvc_frame \<Rightarrow> ndarray Queue \<Rightarrow> ndarray Queue outcome" where
  "PTR_PY_FRAME_CALLBACK frame Q =
     (case py_frame_callback frame Q of
        Raises e \<Rightarrow> Returns Q
      | r \<Rightarrow> r)"

text \<open>The driver delivering frames one after the other; a blocked callback never returns.\<close>

fun deliver :: "uvc_frame list \<Rightarrow> ndarray Queue \<Rightarrow> ndarray Queue outcome" where
  "deliver [] Q = Returns Q"
| "deliver (f # fs) Q =
     (case PTR_PY_FRAME_CALLBACK f Q of
        Returns Q' \<Rightarrow> deliver fs Q'
      | r \<Rightarrow> r)"

definition view_of :: "uvc_frame \<Rightarrow> ndarray" where
  "view_of frame = \<lparr> base = data frame, rows = height frame, cols = width frame \<rparr>"

definition well_formed :: "uvc_frame \<Rightarrow> bool" where
  "well_formed frame \<longleftrightarrow> data frame \<noteq> 0 \<and> data_bytes frame = 2 * width frame * height frame"

subsection \<open>Temperature conversion (lines 69 to 74)\<close>



subsection \<open>Rounding\<close>

text \<open>
  Round to the nearest integer, ties to the even one: what Python's \<^verbatim>\<open>round\<close> and
  OpenCV's \<^verbatim>\<open>cvRound\<close> do. \<open>py_round x n\<close> is \<^verbatim>\<open>round(x, n)\<close> on the exact value,
  an idealisation: the float nearest to the result stands for the result.
\<close>

definition round_half_even :: "real \<Rightarrow> int" where
  "round_half_even x =
     (let f = \<lfloor>x\<rfloor>; d = x - real_of_int f
      in if d < 1 / 2 then f
         else if 1 / 2 < d then f + 1
         else if even f then f else f + 1)"

definition py_round :: "real \<Rightarrow> nat \<Rightarrow> real" where
  "py_round x n = real_of_int (round_half_even (x * 10 ^ n)) / 10 ^ n"

subsection \<open>The thermal processor (lines 77 to 80)\<close>

text \<open>
  \<^verbatim>\<open>cv2.normalize(data, data, 0, 65535, cv2.NORM_MINMAX)\<close> has the input array as source
  and as destination. What it writes is computed by OpenCV in single precision, with or
  without a fused multiply-add depending on the build, and that arithmetic is not modelled:
  the routine is the parameter \<open>cv_normalize\<close>, where \<open>cv_normalize src i\<close> is the value written
  to cell \<open>i\<close> when the cells hold \<open>src\<close>.

  \<open>raw_to_8bit cv_normalize data\<close>: normalise in place, shift right by 8 in place
  (\<^verbatim>\<open>np.right_shift(data, 8, data)\<close>), then build a new 8-bit image
  (\<^verbatim>\<open>np.uint8(data)\<close> copies) with the grey value in each of three channels
  (\<^verbatim>\<open>cv2.cvtColor\<close>, which raises on an image with no pixel). The result is the outcome
  together with the memory the call leaves.
\<close>

type_synonym rgb_image = "8 word list list list"

definition raw_to_8bit ::
  "(16 word list \<Rightarrow> nat \<Rightarrow> 16 word) \<Rightarrow> ndarray \<Rightarrow> heap \<Rightarrow> rgb_image outcome \<times> heap" where
  "raw_to_8bit cv_normalize d h =
     (let src = map h (cells d);
          h1 = write_cells h (base d) (map (cv_normalize src) [0 ..< length src]);
          h2 = write_cells h1 (base d) (map (drop_bit 8) (map h1 (cells d)))
      in if rows d * cols d = 0 then (Raises CvError, h2)
         else (Returns (map (map (\<lambda>v. [ucast v, ucast v, ucast v])) (read_view h2 d)), h2))"

subsection \<open>The world of the display loop\<close>

text \<open>
  The environment fixes what the outside answers: the \<open>k\<close>-th call of \<^verbatim>\<open>time.time()\<close>,
  the \<open>k\<close>-th \<^verbatim>\<open>sense()\<close> of the motion sensor and of the ambient sensor (a pair
  \<^verbatim>\<open>(hum, temp)\<close>). Nothing is assumed of the clock.
\<close>

record env =
  clock :: "nat \<Rightarrow> real"
  motion_sensor :: "nat \<Rightarrow> bool outcome"
  ambient_temp_sensor :: "nat \<Rightarrow> (real \<times> real) outcome"

text \<open>\<^verbatim>\<open>data_set\<close> starts as the integer \<^verbatim>\<open>0\<close> and then holds a dict with two keys.\<close>

datatype data_set_t = Zero | Dict (temp: real) (hum: real)

record state =
  \<comment> \<open>calls made so far to the outside\<close>
  time_calls :: nat
  motion_calls :: nat
  ambient_calls :: nat
  kill_gui_calls :: nat
  show_gui_calls :: nat
  \<comment> \<open>the global queue\<close>
  frame_queue :: "ndarray Queue"
  \<comment> \<open>Tk: whether each element of \<^verbatim>\<open>panels\<close> is packed, and what the labels show\<close>
  heat_image_panel :: bool
  data_panel :: bool
  debug_panel :: bool
  data_string_pointers :: "real \<times> real"
  debug_sleep_timer :: real
  \<comment> \<open>variables of the main block\<close>
  last_ambient_temp_req_time :: real
  data_set :: data_set_t
  is_gui_shown :: bool
  start_time :: real

definition time_time :: "env \<Rightarrow> state \<Rightarrow> real \<times> state" where
  "time_time e s = (clock e (time_calls s), s\<lparr> time_calls := Suc (time_calls s) \<rparr>)"

subsection \<open>The ambient sensor poller (lines 282 to 291)\<close>

text \<open>
  The clock is read once for the test and, after the sensor has answered, once more for
  the new request time.
\<close>

definition get_ambient_temp_data ::
  "env \<Rightarrow> real \<Rightarrow> data_set_t \<Rightarrow> state \<Rightarrow> (data_set_t \<times> real) outcome \<times> state" where
  "get_ambient_temp_data e last_req_time last_data_set s =
     (let (now, s1) = time_time e s in
      if now - last_req_time > ambient_temp_delay_sec settings then
        let s2 = s1\<lparr> ambient_calls := Suc (ambient_calls s1) \<rparr> in
        (case ambient_temp_sensor e (ambient_calls s1) of
           Returns (hum0, temp0) \<Rightarrow>
             let hum1 = py_round hum0 2;
                 temp1 = py_round temp0 2;
                 (now2, s3) = time_time e s2
             in (Returns (Dict temp1 hum1, now2), s3)
         | Raises x \<Rightarrow> (Raises x, s2)
         | Blocks \<Rightarrow> (Blocks, s2))
      else (Returns (last_data_set, last_req_time), s1))"

subsection \<open>Labels and panels (lines 294 to 321)\<close>

definition update_string_pointers :: "data_set_t \<Rightarrow> state \<Rightarrow> unit outcome \<times> state" where
  "update_string_pointers ds s =
     (case ds of
        Dict t u \<Rightarrow> (Returns (), s\<lparr> data_string_pointers := (t, u) \<rparr>)
      | Zero \<Rightarrow> (Raises TypeError, s))"

definition kill_gui :: "state \<Rightarrow> state" where
  "kill_gui s =
     (let s1 = s\<lparr> kill_gui_calls := Suc (kill_gui_calls s) \<rparr>;
          s2 = s1\<lparr> heat_image_panel := False \<rparr>;
          s3 = s2\<lparr> data_panel := False \<rparr>
      in if display_debug_panel settings then s3\<lparr> debug_panel := False \<rparr> else s3)"

definition show_gui :: "state \<Rightarrow> state" where
  "show_gui s =
     (let s1 = s\<lparr> show_gui_calls := Suc (show_gui_calls s) \<rparr>;
          s2 = s1\<lparr> heat_image_panel := True \<rparr>;
          s3 = s2\<lparr> data_panel := True \<rparr>
      in if display_debug_panel settings then s3\<lparr> debug_panel := True \<rparr> else s3)"

definition movement :: "env \<Rightarrow> state \<Rightarrow> bool outcome \<times> state" where
  "movement e s = (motion_sensor e (motion_calls s), s\<lparr> motion_calls := Suc (motion_calls s) \<rparr>)"

subsection \<open>The main block (lines 396 to 474)\<close>

text \<open>
  The state before the main block runs: nothing called, the queue as line 42 creates it,
  no widget yet.
\<close>

definition boot :: state where
  "boot = \<lparr> time_calls = 0, motion_calls = 0, ambient_calls = 0,
            kill_gui_calls = 0, show_gui_calls = 0,
            frame_queue = q,
            heat_image_panel = False, data_panel = False, debug_panel = False,
            data_string_pointers = (0, 0), debug_sleep_timer = 0,
            last_ambient_temp_req_time = 0, data_set = Zero,
            is_gui_shown = False, start_time = 0 \<rparr>"

text \<open>
  Lines 396 to 421: the first poll, the widgets (each panel is packed when it is built,
  the data labels are built from the items of \<^verbatim>\<open>data_set\<close>, the timer label shows 0),
  \<^verbatim>\<open>is_gui_shown = True\<close> and the start time.
\<close>

definition main_init :: "env \<Rightarrow> unit outcome \<times> state" where
  "main_init e =
     (case get_ambient_temp_data e 0 Zero boot of
        (Returns (ds, t), s1) \<Rightarrow>
          (let s2 = s1\<lparr> data_set := ds, last_ambient_temp_req_time := t \<rparr> in
           case ds of
             Zero \<Rightarrow> (Raises AttributeError, s2\<lparr> heat_image_panel := True \<rparr>)
           | Dict t1 u1 \<Rightarrow>
               (let s3 = s2\<lparr> heat_image_panel := True, data_panel := True,
                               data_string_pointers := (t1, u1) \<rparr>;
                    s4 = (if display_debug_panel settings
                          then s3\<lparr> debug_panel := True, debug_sleep_timer := 0 \<rparr> else s3);
                    s5 = s4\<lparr> is_gui_shown := True \<rparr>;
                    (now, s6) = time_time e s5
                in (Returns (), s6\<lparr> start_time := now \<rparr>)))
      | (Raises x, s1) \<Rightarrow> (Raises x, s1)
      | (Blocks, s1) \<Rightarrow> (Blocks, s1))"

text \<open>
  One pass of the body of \<^verbatim>\<open>while True\<close> (lines 425 to 469). What follows it in the
  source (\<^verbatim>\<open>window.update_idletasks()\<close>, \<^verbatim>\<open>window.update()\<close>, \<^verbatim>\<open>time.sleep\<close>)
  changes none of the modelled fields: it lets the clock advance, and the clock is the
  environment's.
\<close>

definition tick :: "env \<Rightarrow> state \<Rightarrow> unit outcome \<times> state" where
  "tick e s =
     (let (now, s1) = time_time e s;
          time_passed = now - start_time s1
      in
      if time_passed < sleep_timeout_sec settings then
        (case get_ambient_temp_data e (last_ambient_temp_req_time s1) (data_set s1) s1 of
           (Returns (ds, t), s2) \<Rightarrow>
             (let s3 = s2\<lparr> data_set := ds, last_ambient_temp_req_time := t \<rparr> in
              case update_string_pointers ds s3 of
                (Returns _, s4) \<Rightarrow>
                  (let s5 = (if display_debug_panel settings \<and> display_sleep_timer settings
                             then s4\<lparr> debug_sleep_timer := py_round time_passed 1 \<rparr>
                             else s4)
                   in case movement e s5 of
                        (Returns m, s6) \<Rightarrow>
                          if m then
                            (let (now2, s7) = time_time e s6
                             in (Returns (), s7\<lparr> start_time := now2 \<rparr>))
                          else (Returns (), s6)
                      | (Raises x, s6) \<Rightarrow> (Raises x, s6)
                      | (Blocks, s6) \<Rightarrow> (Blocks, s6))
              | (Raises x, s4) \<Rightarrow> (Raises x, s4)
              | (Blocks, s4) \<Rightarrow> (Blocks, s4))
         | (Raises x, s2) \<Rightarrow> (Raises x, s2)
         | (Blocks, s2) \<Rightarrow> (Blocks, s2))
      else
        (let s2 = (if is_gui_shown s1 then kill_gui s1 else s1)
         in case movement e s2 of
              (Returns m, s3) \<Rightarrow>
                if m then
                  (let s4 = show_gui s3;
                       (now2, s5) = time_time e s4
                   in (Returns (), s5\<lparr> start_time := now2 \<rparr>))
                else (Returns (), s3)
            | (Raises x, s3) \<Rightarrow> (Raises x, s3)
            | (Blocks, s3) \<Rightarrow> (Blocks, s3)))"

text \<open>
  The loop has no exit but an exception, so it is observed after a number of passes:
  \<open>main_loop e n s\<close> is the state after \<open>n\<close> passes, or where a pass did not return.
\<close>

fun main_loop :: "env \<Rightarrow> nat \<Rightarrow> state \<Rightarrow> unit outcome \<times> state" where
  "main_loop e 0 s = (Returns (), s)"
| "main_loop e (Suc n) s =
     (case tick e s of
        (Returns _, s') \<Rightarrow> main_loop e n s'
      | r \<Rightarrow> r)"

text \<open>
  The branch a pass takes is the only place the program holds its display state: ACTIVE
  when the clock read at the start of the pass is less than the timeout after
  \<^verbatim>\<open>start_time\<close>, PASSIVE otherwise.
\<close>

datatype display_state = ACTIVE | PASSIVE

definition state_at_tick :: "env \<Rightarrow> state \<Rightarrow> display_state" where
  "state_at_tick e s =
     (if clock e (time_calls s) - start_time s < sleep_timeout_sec settings then ACTIVE else PASSIVE)"

subsection \<open>The two threads\<close>

text \<open>
  The driver's thread runs the callback, the main thread runs the loop. They share the
  queue only, and the queue locks each of its operations, so a run of the program is a
  sequence of whole callbacks and whole passes in some order.
\<close>

datatype event = Frame uvc_frame | Tick

fun step :: "env \<Rightarrow> event \<Rightarrow> state \<Rightarrow> unit outcome \<times> state" where
  "step e (Frame f) s =
     (case PTR_PY_FRAME_CALLBACK f (frame_queue s) of
        Returns Q' \<Rightarrow> (Returns (), s\<lparr> frame_queue := Q' \<rparr>)
      | Raises x \<Rightarrow> (Raises x, s)
      | Blocks \<Rightarrow> (Blocks, s))"
| "step e Tick s = tick e s"

fun run :: "env \<Rightarrow> event list \<Rightarrow> state \<Rightarrow> unit outcome \<times> state" where
  "run e [] s = (Returns (), s)"
| "run e (ev # evs) s =
     (case step e ev s of
        (Returns _, s') \<Rightarrow> run e evs s'
      | r \<Rightarrow> r)"

text \<open>
  \<open>quiet e s n\<close>: for the next \<open>n\<close> passes from \<open>s\<close> (each reads the clock at most three
  times when no motion is seen, and the motion sensor once) every clock reading is less than
  the timeout after \<^verbatim>\<open>start_time\<close> and no motion is detected.
\<close>

definition quiet :: "env \<Rightarrow> state \<Rightarrow> nat \<Rightarrow> bool" where
  "quiet e s n \<longleftrightarrow>
     (\<forall>k \<in> set [time_calls s ..< time_calls s + 3 * n].
         clock e k - start_time s < sleep_timeout_sec settings)
   \<and> (\<forall>k \<in> set [motion_calls s ..< motion_calls s + n]. motion_sensor e k \<noteq> Returns True)"

subsection \<open>Concrete inputs\<close>

text \<open>Small inputs on which the theorems below are instantiated and evaluated.\<close>

definition zero_heap :: heap where
  "zero_heap = (\<lambda>a. 0)"

definition pair_frame :: uvc_frame where
  "pair_frame = \<lparr> data = 1, data_bytes = 4, width = 2, height = 1 \<rparr>"

definition pair_view :: ndarray where
  "pair_view = \<lparr> base = 1, rows = 1, cols = 2 \<rparr>"

definition pair_heap :: heap where
  "pair_heap = zero_heap(1 := 0, 2 := 65535)"

definition empty_view :: ndarray where
  "empty_view = \<lparr> base = 1, rows = 0, cols = 2 \<rparr>"

text \<open>
  What normalising to the range 0 to 65535 writes when the cells already have minimum 0
  and maximum 65535: scale 1 and shift 0, exactly so in single precision, and every cell
  keeps its value.
\<close>

definition scale_one :: "16 word list \<Rightarrow> nat \<Rightarrow> 16 word" where
  "scale_one src i = src ! i"

definition unit_frames :: "uvc_frame list" where
  "unit_frames = map (\<lambda>i. \<lparr> data = Suc i, data_bytes = 2, width = 1, height = 1 \<rparr>) [0 ..< 12]"

definition full_queue :: "ndarray Queue" where
  "full_queue = \<lparr> maxsize = BUF_SIZE, queue = map view_of (take 10 unit_frames) \<rparr>"

text \<open>Environments: a poll at time 10 that ends at time 11; ten idle seconds after boot;
  motion after a long idle time; motion while active.\<close>

definition poll_env :: env where
  "poll_env = \<lparr> clock = (\<lambda>k. if k = 0 then 10 else 11),
                motion_sensor = (\<lambda>k. Returns False),
                ambient_temp_sensor = (\<lambda>k. Returns (50, 20)) \<rparr>"

definition idle_env :: env where
  "idle_env = \<lparr> clock = (\<lambda>k. if k < 3 then 1000 else 1010 + real k / 10),
                motion_sensor = (\<lambda>k. Returns False),
                ambient_temp_sensor = (\<lambda>k. Returns (50, 20)) \<rparr>"

definition wake_env :: env where
  "wake_env = \<lparr> clock = (\<lambda>k. if k = 0 then 20 else 21),
                motion_sensor = (\<lambda>k. Returns (k = 0)),
                ambient_temp_sensor = (\<lambda>k. Returns (50, 20)) \<rparr>"

definition stir_env :: env where
  "stir_env = \<lparr> clock = (\<lambda>k. 7),
                motion_sensor = (\<lambda>k. Returns True),
                ambient_temp_sensor = (\<lambda>k. Returns (50, 20)) \<rparr>"

section \<open>Properties\<close>

subsection \<open>Temperature conversion\<close>




subsection \<open>The frame callback and the bounded buffer\<close>

text \<open>
  Claim C5. A frame whose reported byte length differs from \<open>2 * width * height\<close> is
  discarded silently: the callback the driver calls returns normally and leaves the queue as
  it was, contents and size. Inside, \<open>py_frame_callback\<close> either returns or raises on a
  NULL data pointer, which the ctypes wrapper drops.
\<close>

theorem malformed_frame_discarded:
  "data_bytes frame \<noteq> 2 * width frame * height frame \<Longrightarrow>
     PTR_PY_FRAME_CALLBACK frame Q = Returns Q
     \<and> (py_frame_callback frame Q = Returns Q \<or> py_frame_callback frame Q = Raises NullPointerAccess)"
  by (simp add: PTR_PY_FRAME_CALLBACK_def py_frame_callback_def Let_def)

theorem malformed_frame_discarded_witness:
  "data_bytes \<lparr> data = 1, data_bytes = 3, width = 2, height = 1 \<rparr> \<noteq> 2 * 2 * 1
   \<and> PTR_PY_FRAME_CALLBACK \<lparr> data = 1, data_bytes = 3, width = 2, height = 1 \<rparr> q = Returns q"
  using malformed_frame_discarded[of "\<lparr> data = 1, data_bytes = 3, width = 2, height = 1 \<rparr>" q] by simp

lemma callback_well_formed:
  "well_formed f \<Longrightarrow> PTR_PY_FRAME_CALLBACK f Q =
     Returns (if full Q then Q else Q\<lparr> queue := queue Q @ [view_of f] \<rparr>)"
  by (simp add: PTR_PY_FRAME_CALLBACK_def py_frame_callback_def Let_def well_formed_def put_def view_of_def)

lemma deliver_well_formed:
  "\<forall>f \<in> set fs. well_formed f \<Longrightarrow> 0 < maxsize Q \<Longrightarrow>
   deliver fs Q = Returns (Q\<lparr> queue := queue Q @ map view_of (take (nat (maxsize Q) - length (queue Q)) fs) \<rparr>)"
proof (induction fs arbitrary: Q)
  case Nil
  then show ?case by simp
next
  case (Cons f fs)
  show ?case
  proof (cases "full Q")
    case True
    then have "nat (maxsize Q) - length (queue Q) = 0" by (simp add: full_def qsize_def) linarith
    with Cons True show ?thesis by (simp add: callback_well_formed)
  next
    case False
    with Cons.prems have lt: "length (queue Q) < nat (maxsize Q)" by (simp add: full_def qsize_def)
    then obtain m where m: "nat (maxsize Q) - length (queue Q) = Suc m" 
      by (metis Suc_diff_Suc)
    then have m': "nat (maxsize Q) - Suc (length (queue Q)) = m" by simp
    from Cons False m m' show ?thesis by (simp add: callback_well_formed)
  qed
qed

text \<open>
  Claim C2. When \<open>capacity + k\<close> well-formed frames are delivered to the empty queue
  (capacity 10) with no pop in between, every delivery returns (none blocks); after the
  first \<open>n\<close> deliveries the queue holds the first \<open>min n capacity\<close> samples in arrival
  order, so in the end exactly the first \<open>capacity\<close> samples; each of the \<open>k\<close> extra
  deliveries leaves the full queue as it is; and a pop then returns the oldest sample.
\<close>

theorem buffer_keeps_first_capacity:
  assumes "\<forall>f \<in> set fs. well_formed f" and "length fs = nat BUF_SIZE + k"
  shows "let Qfull = \<lparr> maxsize = BUF_SIZE, queue = map view_of (take (nat BUF_SIZE) fs) \<rparr> in
           (\<forall>n \<le> length fs. deliver (take n fs) q =
               Returns \<lparr> maxsize = BUF_SIZE, queue = map view_of (take (min n (nat BUF_SIZE)) fs) \<rparr>)
         \<and> deliver fs q = Returns Qfull
         \<and> (\<forall>j < k. PTR_PY_FRAME_CALLBACK (fs ! (nat BUF_SIZE + j)) Qfull = Returns Qfull)
         \<and> get Qfull = Returns (view_of (fs ! 0), \<lparr> maxsize = BUF_SIZE, queue = map view_of (take (nat BUF_SIZE - 1) (tl fs)) \<rparr>)"
proof -
  have pre: "deliver (take n fs) q =
               Returns \<lparr> maxsize = BUF_SIZE, queue = map view_of (take (min n (nat BUF_SIZE)) fs) \<rparr>" for n
  proof -
    have "\<forall>f \<in> set (take n fs). well_formed f" using assms(1) by (meson in_set_takeD)
    then show ?thesis
      using deliver_well_formed[of "take n fs" q]
      by (simp add: q_def Queue_init_def BUF_SIZE_def min.commute)
  qed
  have whole: "deliver fs q = Returns \<lparr> maxsize = BUF_SIZE, queue = map view_of (take (nat BUF_SIZE) fs) \<rparr>"
    using pre[of "length fs"] assms(2) by simp
  have fullq: "full \<lparr> maxsize = BUF_SIZE, queue = map view_of (take (nat BUF_SIZE) fs) \<rparr>"
    using assms(2) by (simp add: full_def qsize_def BUF_SIZE_def)
  have extra: "PTR_PY_FRAME_CALLBACK (fs ! (nat BUF_SIZE + j)) \<lparr> maxsize = BUF_SIZE, queue = map view_of (take (nat BUF_SIZE) fs) \<rparr>
      = Returns \<lparr> maxsize = BUF_SIZE, queue = map view_of (take (nat BUF_SIZE) fs) \<rparr>" if "j < k" for j
  proof -
    have "well_formed (fs ! (nat BUF_SIZE + j))" using assms that by simp
    then show ?thesis using fullq by (simp add: callback_well_formed)
  qed
  obtain f0 rest where fs: "fs = f0 # rest" using assms(2) by (cases fs) (auto simp: BUF_SIZE_def)
  have pop: "get \<lparr> maxsize = BUF_SIZE, queue = map view_of (take (nat BUF_SIZE) fs) \<rparr>
     = Returns (view_of (fs ! 0), \<lparr> maxsize = BUF_SIZE, queue = map view_of (take (nat BUF_SIZE - 1) (tl fs)) \<rparr>)"
    by (simp add: fs get_def BUF_SIZE_def)
  show ?thesis unfolding Let_def using pre whole extra pop by blast
qed

theorem buffer_keeps_first_capacity_witness:
  "list_all well_formed unit_frames \<and> length unit_frames = nat BUF_SIZE + 2
   \<and> deliver unit_frames q = Returns \<lparr> maxsize = 10, queue = map view_of (take 10 unit_frames) \<rparr>
   \<and> get \<lparr> maxsize = 10, queue = map view_of (take 10 unit_frames) \<rparr>
      = Returns (\<lparr> base = 1, rows = 1, cols = 1 \<rparr>, \<lparr> maxsize = 10, queue = map view_of (take 9 (tl unit_frames)) \<rparr>)"
proof -
  have a: "\<forall>f \<in> set unit_frames. well_formed f" by (auto simp: unit_frames_def well_formed_def)
  have b: "length unit_frames = nat BUF_SIZE + 2" by (simp add: unit_frames_def BUF_SIZE_def)
  have c: "unit_frames ! 0 = \<lparr> data = 1, data_bytes = 2, width = 1, height = 1 \<rparr>"
    by (simp add: unit_frames_def upt_rec)
  show ?thesis using buffer_keeps_first_capacity[OF a b] a b c
    by (simp add: Let_def BUF_SIZE_def view_of_def list_all_iff)
qed

text \<open>
  Claim C10, as stated, fails: the enqueued sample is not a copy. For the frame at address
  1 the queue receives a view based at that same address, and a later write of the driver
  to that address changes what the queued sample reads.
\<close>

theorem queued_sample_aliases_driver_memory:
  "PTR_PY_FRAME_CALLBACK pair_frame q = Returns \<lparr> maxsize = 10, queue = [pair_view] \<rparr>
   \<and> base pair_view = data pair_frame
   \<and> read_view zero_heap pair_view = [[0, 0]]
   \<and> read_view (zero_heap(data pair_frame := 7)) pair_view = [[7, 0]]"
  by (simp add: PTR_PY_FRAME_CALLBACK_def py_frame_callback_def Let_def pair_frame_def pair_view_def
      q_def Queue_init_def BUF_SIZE_def full_def qsize_def put_def read_view_def zero_heap_def upt_rec)

text \<open>
  Claim C10, amended. On every invocation that enqueues a sample (a well-formed frame, a
  queue that is not full) the queue receives a view of the driver's frame buffer: its base
  is the frame's data address, its shape is height by width, and its cell \<open>(r, c)\<close> reads
  the driver's memory at \<open>data + r * width + c\<close> whenever it is read. Nothing is copied.
\<close>

theorem callback_enqueues_view:
  "well_formed frame \<Longrightarrow> \<not> full Q \<Longrightarrow>
     py_frame_callback frame Q = Returns (Q\<lparr> queue := queue Q @ [view_of frame] \<rparr>)
     \<and> base (view_of frame) = data frame
     \<and> rows (view_of frame) = height frame \<and> cols (view_of frame) = width frame
     \<and> (\<forall>h r c. r < height frame \<longrightarrow> c < width frame \<longrightarrow>
           read_view h (view_of frame) ! r ! c = h (data frame + r * width frame + c))"
  by (simp add: py_frame_callback_def Let_def well_formed_def put_def view_of_def read_view_def)

theorem callback_enqueues_view_witness:
  "well_formed pair_frame \<and> \<not> full q
   \<and> py_frame_callback pair_frame q = Returns \<lparr> maxsize = 10, queue = [pair_view] \<rparr>
   \<and> read_view pair_heap (view_of pair_frame) ! 0 ! 1 = pair_heap 2"
proof -
  have a: "well_formed pair_frame" by (simp add: well_formed_def pair_frame_def)
  have b: "\<not> full q" by (simp add: full_def q_def Queue_init_def qsize_def BUF_SIZE_def)
  show ?thesis using callback_enqueues_view[OF a b] a b
    by (simp add: q_def Queue_init_def BUF_SIZE_def view_of_def pair_frame_def pair_view_def numeral_2_eq_2)
qed

subsection \<open>The thermal processor\<close>

lemma map_write_cells: "map (write_cells h b xs) [b ..< b + length xs] = xs"
  by (rule nth_equalityI) (simp_all add: write_cells_def)

lemma write_cells_outside: "a \<notin> set [b ..< b + length xs] \<Longrightarrow> write_cells h b xs a = h a"
  by (auto simp: write_cells_def)

lemma drop_bit_8_lt: "drop_bit 8 (v :: 16 word) < 256"
proof -
  have a: "unat v < 65536"
    using unsigned_less[of v, where 'a = nat] by simp
  have "unat (drop_bit 8 v) = unat v div 256"
    by (simp add: drop_bit_eq_div unat_div)
  with a have "unat (drop_bit 8 v) < 256" by simp
  then show ?thesis by (simp add: word_less_nat_alt)
qed

lemma raw_to_8bit_effect:
  "(\<forall>a. a \<notin> set (cells d) \<longrightarrow> snd (raw_to_8bit cv_normalize d h) a = h a)
   \<and> map (snd (raw_to_8bit cv_normalize d h)) (cells d)
       = map (drop_bit 8) (map (cv_normalize (map h (cells d))) [0 ..< rows d * cols d])
   \<and> (\<forall>a \<in> set (cells d). snd (raw_to_8bit cv_normalize d h) a < 256)
   \<and> fst (raw_to_8bit cv_normalize d h)
       = (if rows d * cols d = 0 then Raises CvError
          else Returns (map (map (\<lambda>v. [ucast v, ucast v, ucast v]))
                         (read_view (snd (raw_to_8bit cv_normalize d h)) d)))"
proof -
  define n where "n = map (cv_normalize (map h (cells d))) [0 ..< length (map h (cells d))]"
  define h1 where "h1 = write_cells h (base d) n"
  define s where "s = map (drop_bit 8) (map h1 (cells d))"
  define h2 where "h2 = write_cells h1 (base d) s"
  have ln: "length n = rows d * cols d" by (simp add: n_def cells_def)
  have ls: "length s = rows d * cols d" by (simp add: s_def cells_def)
  have c: "cells d = [base d ..< base d + length n]" "cells d = [base d ..< base d + length s]"
    by (simp_all add: cells_def ln ls)
  have m1: "map h1 (cells d) = n" unfolding h1_def c(1) by (rule map_write_cells)
  have m2: "map h2 (cells d) = s" unfolding h2_def c(2) by (rule map_write_cells)
  have r: "snd (raw_to_8bit cv_normalize d h) = h2"
    by (simp add: raw_to_8bit_def Let_def h2_def s_def h1_def n_def)
  have f: "fst (raw_to_8bit cv_normalize d h)
       = (if rows d * cols d = 0 then Raises CvError
          else Returns (map (map (\<lambda>v. [ucast v, ucast v, ucast v])) (read_view h2 d)))"
    by (simp add: raw_to_8bit_def Let_def h2_def s_def h1_def n_def)
  have out: "h2 a = h a" if "a \<notin> set (cells d)" for a
  proof -
    have "h2 a = h1 a" unfolding h2_def using that c(2) by (intro write_cells_outside) simp
    also have "\<dots> = h a" unfolding h1_def using that c(1) by (intro write_cells_outside) simp
    finally show ?thesis .
  qed
  have ln': "length (map h (cells d)) = rows d * cols d" by (simp add: cells_def)
  have "map h2 (cells d) = map (drop_bit 8) n" using m2 unfolding s_def m1 .
  then have eq: "map h2 (cells d)
      = map (drop_bit 8) (map (cv_normalize (map h (cells d))) [0 ..< rows d * cols d])"
    unfolding n_def ln' .
  have small: "h2 a < 256" if "a \<in> set (cells d)" for a
  proof -
    have "h2 a \<in> set (map h2 (cells d))" using that by simp
    then have "h2 a \<in> set (map (drop_bit 8) n)" using m2 m1 by (simp add: s_def)
    then show ?thesis using drop_bit_8_lt by auto
  qed
  show ?thesis unfolding r f using out eq small by simp
qed

lemma cells_pair_view: "cells pair_view = [1, 2]"
  by (simp add: cells_def pair_view_def upt_rec)

lemma read_view_pair_view: "read_view h pair_view = [[h 1, h 2]]"
  by (simp add: read_view_def pair_view_def upt_rec numeral_2_eq_2)

lemma raw_to_8bit_pair: "map (snd (raw_to_8bit scale_one pair_view pair_heap)) [1, 2] = [0, 255]"
proof -
  have m: "map pair_heap [1, 2] = [0, 65535]" by (simp add: pair_heap_def zero_heap_def)
  have n: "rows pair_view * cols pair_view = 2" by (simp add: pair_view_def)
  have i: "map (scale_one [0, 65535]) [0 ..< 2] = [0, 65535]"
    by (simp add: scale_one_def upt_rec numeral_2_eq_2)
  have "map (snd (raw_to_8bit scale_one pair_view pair_heap)) (cells pair_view)
          = map (drop_bit 8) (map (scale_one (map pair_heap (cells pair_view)))
                                  [0 ..< rows pair_view * cols pair_view])"
    using raw_to_8bit_effect[of pair_view scale_one pair_heap] by blast
  then show ?thesis unfolding cells_pair_view m n i by simp
qed

lemma raw_to_8bit_pair_small: "snd (raw_to_8bit cv_normalize pair_view pair_heap) 2 < 256"
proof -
  have "2 \<in> set (cells pair_view)" by (simp add: cells_pair_view)
  then show ?thesis using raw_to_8bit_effect[of pair_view cv_normalize pair_heap] by blast
qed

text \<open>
  Claim C7, as stated, fails: the call changes its input. The grid \<open>[[0, 65535]]\<close> reads
  \<open>[[0, 255]]\<close> after \<open>raw_to_8bit\<close> when the normalisation keeps the two extremes where
  they are, and whatever the normalisation writes the grid no longer reads
  \<open>[[0, 65535]]\<close>.
\<close>

theorem raw_to_8bit_changes_input:
  "read_view pair_heap pair_view = [[0, 65535]]
   \<and> read_view (snd (raw_to_8bit scale_one pair_view pair_heap)) pair_view = [[0, 255]]
   \<and> (\<forall>cv_normalize. read_view (snd (raw_to_8bit cv_normalize pair_view pair_heap)) pair_view
                       \<noteq> [[0, 65535]])"
proof -
  have a: "read_view pair_heap pair_view = [[0, 65535]]"
    by (simp add: read_view_pair_view pair_heap_def zero_heap_def)
  have b: "read_view (snd (raw_to_8bit scale_one pair_view pair_heap)) pair_view = [[0, 255]]"
    using raw_to_8bit_pair by (simp add: read_view_pair_view)
  have c: "read_view (snd (raw_to_8bit cv_normalize pair_view pair_heap)) pair_view \<noteq> [[0, 65535]]"
    for cv_normalize
    using raw_to_8bit_pair_small[of cv_normalize] by (auto simp: read_view_pair_view)
  show ?thesis using a b c by blast
qed

text \<open>
  Claim C7, amended. \<open>raw_to_8bit\<close> depends on nothing but its argument and the memory
  the argument views, and on a grid with at least one cell it returns a new image; it works
  in place on the input grid: after the call every cell of the input holds what the
  normalisation wrote there shifted right by 8 bits, a value less than 256, so every cell
  that held 256 or more has changed; the returned image repeats that value in its three
  channels; memory outside the input grid is unchanged. On a grid with no cell the call
  raises and changes nothing.
\<close>

theorem raw_to_8bit_in_place:
  "let (r, h') = raw_to_8bit cv_normalize d h in
     (\<forall>a. a \<notin> set (cells d) \<longrightarrow> h' a = h a)
   \<and> map h' (cells d) = map (drop_bit 8) (map (cv_normalize (map h (cells d))) [0 ..< rows d * cols d])
   \<and> (\<forall>a \<in> set (cells d). h' a < 256 \<and> (256 \<le> h a \<longrightarrow> h' a \<noteq> h a))
   \<and> (rows d * cols d \<noteq> 0 \<longrightarrow>
         r = Returns (map (map (\<lambda>v. [ucast v, ucast v, ucast v])) (read_view h' d)))
   \<and> (rows d * cols d = 0 \<longrightarrow> r = Raises CvError \<and> h' = h)"
proof -
  note e = raw_to_8bit_effect[of d cv_normalize h]
  have ch: "snd (raw_to_8bit cv_normalize d h) a \<noteq> h a"
    if "a \<in> set (cells d)" "256 \<le> h a" for a
  proof -
    have "snd (raw_to_8bit cv_normalize d h) a < 256" using e that(1) by blast
    with that(2) show ?thesis by auto
  qed
  have em: "snd (raw_to_8bit cv_normalize d h) = h" if "rows d * cols d = 0"
  proof (rule ext)
    fix a
    have "cells d = []" using that by (simp add: cells_def)
    then have "a \<notin> set (cells d)" by simp
    then show "snd (raw_to_8bit cv_normalize d h) a = h a" using e by blast
  qed
  show ?thesis using e ch em by (simp add: split_beta)
qed

theorem raw_to_8bit_in_place_witness:
  "map (snd (raw_to_8bit scale_one pair_view pair_heap)) (cells pair_view) = [0, 255]
   \<and> snd (raw_to_8bit scale_one pair_view pair_heap) 2 \<noteq> pair_heap 2
   \<and> fst (raw_to_8bit scale_one pair_view pair_heap) = Returns [[[0, 0, 0], [255, 255, 255]]]
   \<and> raw_to_8bit scale_one empty_view pair_heap = (Raises CvError, pair_heap)"
proof -
  note p = raw_to_8bit_in_place[of scale_one pair_view pair_heap, unfolded split_beta Let_def]
  note z = raw_to_8bit_in_place[of scale_one empty_view pair_heap, unfolded split_beta Let_def]
  have n: "rows pair_view * cols pair_view \<noteq> 0" "rows empty_view * cols empty_view = 0"
    by (simp_all add: pair_view_def empty_view_def)
  have two: "2 \<in> set (cells pair_view)" "256 \<le> pair_heap 2"
    by (simp_all add: cells_pair_view pair_heap_def zero_heap_def)
  have c: "map (snd (raw_to_8bit scale_one pair_view pair_heap)) (cells pair_view) = [0, 255]"
    using raw_to_8bit_pair by (simp add: cells_pair_view)
  have ch: "snd (raw_to_8bit scale_one pair_view pair_heap) 2 \<noteq> pair_heap 2"
    using p two by blast
  have "fst (raw_to_8bit scale_one pair_view pair_heap)
      = Returns (map (map (\<lambda>v. [ucast v, ucast v, ucast v]))
                  (read_view (snd (raw_to_8bit scale_one pair_view pair_heap)) pair_view))"
    using p n by blast
  then have img: "fst (raw_to_8bit scale_one pair_view pair_heap) = Returns [[[0, 0, 0], [255, 255, 255]]]"
    using raw_to_8bit_pair by (simp add: read_view_pair_view)
  have "fst (raw_to_8bit scale_one empty_view pair_heap) = Raises CvError
      \<and> snd (raw_to_8bit scale_one empty_view pair_heap) = pair_heap"
    using z n by blast
  then have em: "raw_to_8bit scale_one empty_view pair_heap = (Raises CvError, pair_heap)"
    by (simp add: prod_eq_iff)
  show ?thesis using c ch img em by blast
qed

subsection \<open>The ambient sensor poller\<close>

lemma round_half_even_near: "\<bar>real_of_int (round_half_even x) - x\<bar> \<le> 1 / 2"
  unfolding round_half_even_def Let_def by (auto split: if_splits)

lemma py_round_2: "\<bar>py_round x 2 - x\<bar> \<le> 1 / 200 \<and> py_round x 2 = real_of_int (round_half_even (x * 100)) / 100"
proof -
  define r where "r = real_of_int (round_half_even (x * 100))"
  have "\<bar>r - x * 100\<bar> \<le> 1 / 2" unfolding r_def by (rule round_half_even_near)
  then have "\<bar>r / 100 - x\<bar> \<le> 1 / 200" by linarith
  then show ?thesis by (simp add: py_round_def r_def)
qed

lemma py_round_50: "py_round 50 2 = 50" "py_round 20 2 = 20"
  by (simp_all add: py_round_def round_half_even_def)

text \<open>
  Claim C3, as stated, fails in its last part: the new request time is not the \<open>now\<close> of
  the comparison. With the clock reading 10 at the test and 11 once the sensor has
  answered, the poll passes the test (\<open>10 - 0 > 5\<close>) and returns 11 as the new time.
\<close>

theorem poll_time_is_second_clock_reading:
  "clock poll_env (time_calls boot) = 10
   \<and> ambient_temp_delay_sec settings < 10 - 0
   \<and> fst (get_ambient_temp_data poll_env 0 Zero boot) = Returns (Dict 20 50, 11)"
  by (simp add: get_ambient_temp_data_def time_time_def Let_def poll_env_def boot_def settings_def py_round_50)

text \<open>
  Claim C3, amended. Let \<open>now\<close> be the clock reading of the test. If
  \<open>now - last_req_time \<le> ambient_temp_delay_sec\<close> the poller returns the last reading
  and the last request time unchanged and does not read the sensor. If
  \<open>now - last_req_time > ambient_temp_delay_sec\<close> it reads the sensor exactly once; when
  that read returns, temperature and humidity are rounded to 2 decimal digits (a multiple
  of 1/100 at most 1/200 away) and returned with, as new request time, the clock read
  again after the sensor read. A second call whose own clock reading is within the delay
  of that new time returns the same reading without a further sensor read, so the two
  calls read the sensor once in total.
\<close>

theorem poller_cache_and_refresh:
  "(clock e (time_calls s) - last_req_time \<le> ambient_temp_delay_sec settings \<longrightarrow>
      get_ambient_temp_data e last_req_time last_data_set s
        = (Returns (last_data_set, last_req_time), s\<lparr> time_calls := Suc (time_calls s) \<rparr>))
   \<and> (ambient_temp_delay_sec settings < clock e (time_calls s) - last_req_time \<longrightarrow>
        ambient_calls (snd (get_ambient_temp_data e last_req_time last_data_set s)) = Suc (ambient_calls s)
      \<and> (\<forall>hum0 temp0. ambient_temp_sensor e (ambient_calls s) = Returns (hum0, temp0) \<longrightarrow>
            get_ambient_temp_data e last_req_time last_data_set s
              = (Returns (Dict (py_round temp0 2) (py_round hum0 2), clock e (Suc (time_calls s))),
                 s\<lparr> time_calls := Suc (Suc (time_calls s)), ambient_calls := Suc (ambient_calls s) \<rparr>)
          \<and> \<bar>py_round temp0 2 - temp0\<bar> \<le> 1 / 200
          \<and> py_round temp0 2 = real_of_int (round_half_even (temp0 * 100)) / 100
          \<and> \<bar>py_round hum0 2 - hum0\<bar> \<le> 1 / 200
          \<and> py_round hum0 2 = real_of_int (round_half_even (hum0 * 100)) / 100
          \<and> (clock e (Suc (Suc (time_calls s))) - clock e (Suc (time_calls s))
                 \<le> ambient_temp_delay_sec settings \<longrightarrow>
               get_ambient_temp_data e (clock e (Suc (time_calls s)))
                   (Dict (py_round temp0 2) (py_round hum0 2))
                   (s\<lparr> time_calls := Suc (Suc (time_calls s)), ambient_calls := Suc (ambient_calls s) \<rparr>)
                 = (Returns (Dict (py_round temp0 2) (py_round hum0 2), clock e (Suc (time_calls s))),
                    s\<lparr> time_calls := Suc (Suc (Suc (time_calls s))),
                       ambient_calls := Suc (ambient_calls s) \<rparr>))))"
  using py_round_2
  by (auto simp: get_ambient_temp_data_def time_time_def Let_def split: outcome.splits)

theorem poller_cache_and_refresh_witness:
  "ambient_temp_delay_sec settings < clock poll_env (time_calls boot) - 0
   \<and> ambient_temp_sensor poll_env (ambient_calls boot) = Returns (50, 20)
   \<and> get_ambient_temp_data poll_env 0 Zero boot
        = (Returns (Dict 20 50, 11), boot\<lparr> time_calls := 2, ambient_calls := 1 \<rparr>)
   \<and> clock poll_env 2 - 11 \<le> ambient_temp_delay_sec settings
   \<and> get_ambient_temp_data poll_env 11 (Dict 20 50) (boot\<lparr> time_calls := 2, ambient_calls := 1 \<rparr>)
        = (Returns (Dict 20 50, 11), boot\<lparr> time_calls := 3, ambient_calls := 1 \<rparr>)"
proof -
  let ?s = "boot\<lparr> time_calls := 2, ambient_calls := 1 \<rparr>"
  have a: "ambient_temp_delay_sec settings < clock poll_env (time_calls boot) - 0"
    by (simp add: settings_def poll_env_def boot_def)
  have b: "ambient_temp_sensor poll_env (ambient_calls boot) = Returns (50, 20)"
    by (simp add: poll_env_def)
  have c: "clock poll_env (time_calls ?s) - 11 \<le> ambient_temp_delay_sec settings"
    by (simp add: settings_def poll_env_def)
  have c': "clock poll_env 2 - 11 \<le> ambient_temp_delay_sec settings"
    by (simp add: settings_def poll_env_def)
  have t: "clock poll_env (Suc (time_calls boot)) = 11"
    "boot\<lparr> time_calls := Suc (Suc (time_calls boot)), ambient_calls := Suc (ambient_calls boot) \<rparr> = ?s"
    "?s\<lparr> time_calls := Suc (time_calls ?s) \<rparr> = boot\<lparr> time_calls := 3, ambient_calls := 1 \<rparr>"
    by (simp_all add: boot_def poll_env_def)
  have one: "get_ambient_temp_data poll_env 0 Zero boot
        = (Returns (Dict (py_round 20 2) (py_round 50 2), clock poll_env (Suc (time_calls boot))),
           boot\<lparr> time_calls := Suc (Suc (time_calls boot)), ambient_calls := Suc (ambient_calls boot) \<rparr>)"
    using poller_cache_and_refresh[of poll_env boot 0 Zero] a b by blast
  have two: "get_ambient_temp_data poll_env 11 (Dict 20 50) ?s
        = (Returns (Dict 20 50, 11), ?s\<lparr> time_calls := Suc (time_calls ?s) \<rparr>)"
    using poller_cache_and_refresh[of poll_env ?s 11 "Dict 20 50"] c by blast
  show ?thesis
    using a b c' one[unfolded t py_round_50] two[unfolded t] by blast
qed

subsection \<open>The display loop\<close>

lemma kill_gui_fields:
  "kill_gui_calls (kill_gui s) = Suc (kill_gui_calls s)"
  "show_gui_calls (kill_gui s) = show_gui_calls s"
  "time_calls (kill_gui s) = time_calls s"
  "motion_calls (kill_gui s) = motion_calls s"
  "ambient_calls (kill_gui s) = ambient_calls s"
  "frame_queue (kill_gui s) = frame_queue s"
  "data_set (kill_gui s) = data_set s"
  "last_ambient_temp_req_time (kill_gui s) = last_ambient_temp_req_time s"
  "data_string_pointers (kill_gui s) = data_string_pointers s"
  "is_gui_shown (kill_gui s) = is_gui_shown s"
  "start_time (kill_gui s) = start_time s"
  "heat_image_panel (kill_gui s) = False"
  "data_panel (kill_gui s) = False"
  "debug_panel (kill_gui s) = False"
  by (simp_all add: kill_gui_def Let_def settings_def)

lemma show_gui_fields:
  "kill_gui_calls (show_gui s) = kill_gui_calls s"
  "show_gui_calls (show_gui s) = Suc (show_gui_calls s)"
  "time_calls (show_gui s) = time_calls s"
  "motion_calls (show_gui s) = motion_calls s"
  "ambient_calls (show_gui s) = ambient_calls s"
  "frame_queue (show_gui s) = frame_queue s"
  "data_set (show_gui s) = data_set s"
  "last_ambient_temp_req_time (show_gui s) = last_ambient_temp_req_time s"
  "data_string_pointers (show_gui s) = data_string_pointers s"
  "is_gui_shown (show_gui s) = is_gui_shown s"
  "start_time (show_gui s) = start_time s"
  "heat_image_panel (show_gui s) = True"
  "data_panel (show_gui s) = True"
  "debug_panel (show_gui s) = True"
  by (simp_all add: show_gui_def Let_def settings_def)

text \<open>The PASSIVE branch, written out.\<close>

lemma tick_passive:
  assumes "\<not> clock e (time_calls s) - start_time s < sleep_timeout_sec settings"
  shows "tick e s =
     (let s1 = s\<lparr> time_calls := Suc (time_calls s) \<rparr>;
          s2 = (if is_gui_shown s then kill_gui s1 else s1);
          s3 = s2\<lparr> motion_calls := Suc (motion_calls s) \<rparr>
      in case motion_sensor e (motion_calls s) of
           Returns m \<Rightarrow>
             if m then (Returns (), (show_gui s3)\<lparr> time_calls := Suc (Suc (time_calls s)),
                                                  start_time := clock e (Suc (time_calls s)) \<rparr>)
             else (Returns (), s3)
         | Raises x \<Rightarrow> (Raises x, s3)
         | Blocks \<Rightarrow> (Blocks, s3))"
  using assms
  by (simp add: tick_def time_time_def movement_def Let_def kill_gui_fields show_gui_fields
      split: outcome.splits)

lemma get_ambient_temp_data_fields:
  "kill_gui_calls (snd (get_ambient_temp_data e l d s)) = kill_gui_calls s"
  "show_gui_calls (snd (get_ambient_temp_data e l d s)) = show_gui_calls s"
  "motion_calls (snd (get_ambient_temp_data e l d s)) = motion_calls s"
  "frame_queue (snd (get_ambient_temp_data e l d s)) = frame_queue s"
  "heat_image_panel (snd (get_ambient_temp_data e l d s)) = heat_image_panel s"
  "data_panel (snd (get_ambient_temp_data e l d s)) = data_panel s"
  "debug_panel (snd (get_ambient_temp_data e l d s)) = debug_panel s"
  "is_gui_shown (snd (get_ambient_temp_data e l d s)) = is_gui_shown s"
  "start_time (snd (get_ambient_temp_data e l d s)) = start_time s"
  "time_calls s < time_calls (snd (get_ambient_temp_data e l d s))"
  "time_calls (snd (get_ambient_temp_data e l d s)) \<le> time_calls s + 2"
  by (simp_all add: get_ambient_temp_data_def time_time_def Let_def split: outcome.splits prod.splits)

text \<open>The ACTIVE branch, in terms of the state the poller leaves.\<close>

lemma tick_active:
  assumes "clock e (time_calls s) - start_time s < sleep_timeout_sec settings"
  shows "tick e s =
     (let s1 = s\<lparr> time_calls := Suc (time_calls s) \<rparr> in
      case get_ambient_temp_data e (last_ambient_temp_req_time s) (data_set s) s1 of
        (Returns (ds, t), s2) \<Rightarrow>
          (case ds of
             Zero \<Rightarrow> (Raises TypeError, s2\<lparr> data_set := ds, last_ambient_temp_req_time := t \<rparr>)
           | Dict t1 u1 \<Rightarrow>
               (let s5 = s2\<lparr> data_set := ds, last_ambient_temp_req_time := t,
                               data_string_pointers := (t1, u1),
                               debug_sleep_timer := py_round (clock e (time_calls s) - start_time s) 1,
                               motion_calls := Suc (motion_calls s2) \<rparr>
                in case motion_sensor e (motion_calls s2) of
                     Returns m \<Rightarrow>
                       if m then (Returns (), s5\<lparr> time_calls := Suc (time_calls s2),
                                                   start_time := clock e (time_calls s2) \<rparr>)
                       else (Returns (), s5)
                   | Raises x \<Rightarrow> (Raises x, s5)
                   | Blocks \<Rightarrow> (Blocks, s5)))
      | (Raises x, s2) \<Rightarrow> (Raises x, s2)
      | (Blocks, s2) \<Rightarrow> (Blocks, s2))"
proof -
  let ?g = "get_ambient_temp_data e (last_ambient_temp_req_time s) (data_set s) (s\<lparr> time_calls := Suc (time_calls s) \<rparr>)"
  obtain r s2 where g: "?g = (r, s2)" by (cases ?g)
  have d: "display_debug_panel settings \<and> display_sleep_timer settings" by (simp add: settings_def)
  show ?thesis
  proof (cases r)
    case (Returns p)
    obtain ds t where p: "p = (ds, t)" by (cases p)
    show ?thesis
    proof (cases ds)
      case Zero
      with assms g Returns p show ?thesis
        by (simp add: tick_def time_time_def update_string_pointers_def Let_def)
    next
      case (Dict t1 u1)
      with assms g Returns p d show ?thesis
        by (cases "motion_sensor e (motion_calls s2)")
          (simp_all add: tick_def time_time_def update_string_pointers_def movement_def Let_def)
    qed
  next
    case (Raises x)
    with assms g show ?thesis by (simp add: tick_def time_time_def Let_def)
  next
    case Blocks
    with assms g show ?thesis by (simp add: tick_def time_time_def Let_def)
  qed
qed

lemma tick_active_fields:
  assumes "clock e (time_calls s) - start_time s < sleep_timeout_sec settings"
  shows "kill_gui_calls (snd (tick e s)) = kill_gui_calls s"
    and "show_gui_calls (snd (tick e s)) = show_gui_calls s"
    and "heat_image_panel (snd (tick e s)) = heat_image_panel s"
    and "data_panel (snd (tick e s)) = data_panel s"
    and "debug_panel (snd (tick e s)) = debug_panel s"
    and "is_gui_shown (snd (tick e s)) = is_gui_shown s"
    and "frame_queue (snd (tick e s)) = frame_queue s"
    and "motion_calls (snd (tick e s)) \<le> Suc (motion_calls s)"
    and "motion_calls s \<le> motion_calls (snd (tick e s))"
    and "time_calls s < time_calls (snd (tick e s))"
proof -
  let ?g = "get_ambient_temp_data e (last_ambient_temp_req_time s) (data_set s) (s\<lparr> time_calls := Suc (time_calls s) \<rparr>)"
  obtain r s2 where g: "?g = (r, s2)" by (cases ?g)
  have f: "kill_gui_calls s2 = kill_gui_calls s" "show_gui_calls s2 = show_gui_calls s"
    "heat_image_panel s2 = heat_image_panel s" "data_panel s2 = data_panel s" "debug_panel s2 = debug_panel s"
    "is_gui_shown s2 = is_gui_shown s" "frame_queue s2 = frame_queue s" "motion_calls s2 = motion_calls s"
    "Suc (time_calls s) < time_calls s2"
    using get_ambient_temp_data_fields[where e = e and l = "last_ambient_temp_req_time s" and d = "data_set s"
        and s = "s\<lparr> time_calls := Suc (time_calls s) \<rparr>"]
    by (simp_all add: g)
  show "kill_gui_calls (snd (tick e s)) = kill_gui_calls s"
    and "show_gui_calls (snd (tick e s)) = show_gui_calls s"
    and "heat_image_panel (snd (tick e s)) = heat_image_panel s"
    and "data_panel (snd (tick e s)) = data_panel s"
    and "debug_panel (snd (tick e s)) = debug_panel s"
    and "is_gui_shown (snd (tick e s)) = is_gui_shown s"
    and "frame_queue (snd (tick e s)) = frame_queue s"
    and "motion_calls (snd (tick e s)) \<le> Suc (motion_calls s)"
    and "motion_calls s \<le> motion_calls (snd (tick e s))"
    and "time_calls s < time_calls (snd (tick e s))"
    unfolding tick_active[OF assms] using f
    by (simp_all add: Let_def g split: outcome.splits prod.splits data_set_t.splits)
qed

lemma tick_active_no_motion:
  assumes "clock e (time_calls s) - start_time s < sleep_timeout_sec settings"
    and "motion_sensor e (motion_calls s) \<noteq> Returns True"
  shows "start_time (snd (tick e s)) = start_time s"
    and "time_calls (snd (tick e s)) \<le> time_calls s + 3"
proof -
  let ?g = "get_ambient_temp_data e (last_ambient_temp_req_time s) (data_set s) (s\<lparr> time_calls := Suc (time_calls s) \<rparr>)"
  obtain r s2 where g: "?g = (r, s2)" by (cases ?g)
  have f: "start_time s2 = start_time s" "motion_calls s2 = motion_calls s"
    "time_calls s2 \<le> time_calls s + 3"
    using get_ambient_temp_data_fields[where e = e and l = "last_ambient_temp_req_time s" and d = "data_set s"
        and s = "s\<lparr> time_calls := Suc (time_calls s) \<rparr>"]
    by (simp_all add: g)
  show "start_time (snd (tick e s)) = start_time s"
    and "time_calls (snd (tick e s)) \<le> time_calls s + 3"
    unfolding tick_active[OF assms(1)] using f assms(2)
    by (simp_all add: Let_def g split: outcome.splits prod.splits data_set_t.splits)
qed

lemma tick_active_motion:
  assumes "clock e (time_calls s) - start_time s < sleep_timeout_sec settings"
    and "motion_sensor e (motion_calls s) = Returns True"
    and "fst (tick e s) = Returns ()"
  shows "start_time (snd (tick e s)) = clock e (time_calls (snd (tick e s)) - 1)"
    and "Suc (time_calls s) < time_calls (snd (tick e s)) - 1"
proof -
  let ?g = "get_ambient_temp_data e (last_ambient_temp_req_time s) (data_set s) (s\<lparr> time_calls := Suc (time_calls s) \<rparr>)"
  obtain r s2 where g: "?g = (r, s2)" by (cases ?g)
  have f: "motion_calls s2 = motion_calls s" "Suc (time_calls s) < time_calls s2"
    using get_ambient_temp_data_fields[where e = e and l = "last_ambient_temp_req_time s" and d = "data_set s"
        and s = "s\<lparr> time_calls := Suc (time_calls s) \<rparr>"]
    by (simp_all add: g)
  show "start_time (snd (tick e s)) = clock e (time_calls (snd (tick e s)) - 1)"
    and "Suc (time_calls s) < time_calls (snd (tick e s)) - 1"
    using assms(3) f assms(2) unfolding tick_active[OF assms(1)] 
    by (simp_all add: Let_def g split: outcome.splits prod.splits data_set_t.splits)
qed

lemma main_init_idle:
  "main_init idle_env = (Returns (), boot\<lparr> time_calls := 3, ambient_calls := 1,
       heat_image_panel := True, data_panel := True, debug_panel := True,
       data_string_pointers := (20, 50), last_ambient_temp_req_time := 1000,
       data_set := Dict 20 50, is_gui_shown := True, start_time := 1000 \<rparr>)"
  by (simp add: main_init_def get_ambient_temp_data_def time_time_def Let_def idle_env_def boot_def
      settings_def py_round_50)

lemma tick_boot_wake:
  "tick wake_env boot = (Returns (), boot\<lparr> time_calls := 2, motion_calls := 1, show_gui_calls := 1,
      heat_image_panel := True, data_panel := True, debug_panel := True, start_time := 21 \<rparr>)"
  by (simp add: tick_def time_time_def movement_def show_gui_def Let_def wake_env_def boot_def settings_def)

lemma tick_boot_stir:
  "tick stir_env boot = (Returns (), boot\<lparr> time_calls := 4, motion_calls := 1, ambient_calls := 1,
      data_string_pointers := (20, 50), debug_sleep_timer := 7,
      last_ambient_temp_req_time := 7, data_set := Dict 20 50, start_time := 7 \<rparr>)"
  by (simp add: tick_def time_time_def movement_def get_ambient_temp_data_def update_string_pointers_def
      Let_def stir_env_def boot_def settings_def py_round_50 py_round_def round_half_even_def)

text \<open>
  Claim C1 does not hold of the code. Boot at time 1000 and no motion: the first pass, at
  1010.3, is evaluated in PASSIVE and calls \<open>kill_gui\<close>; the passes that follow stay in
  PASSIVE and call it again, each one, because \<^verbatim>\<open>is_gui_shown\<close> is set to \<^verbatim>\<open>True\<close>
  once and never assigned afterwards. After three passes \<open>kill_gui\<close> has been called
  three times and the flag is still true.
\<close>

theorem kill_gui_on_every_passive_tick:
  "fst (main_init idle_env) = Returns ()
   \<and> state_at_tick idle_env (snd (main_init idle_env)) = PASSIVE
   \<and> kill_gui_calls (snd (main_loop idle_env 1 (snd (main_init idle_env)))) = 1
   \<and> state_at_tick idle_env (snd (main_loop idle_env 1 (snd (main_init idle_env)))) = PASSIVE
   \<and> kill_gui_calls (snd (main_loop idle_env 2 (snd (main_init idle_env)))) = 2
   \<and> kill_gui_calls (snd (main_loop idle_env 3 (snd (main_init idle_env)))) = 3
   \<and> is_gui_shown (snd (main_loop idle_env 3 (snd (main_init idle_env)))) = True"
  apply (simp add: main_init_idle)
  apply (simp add: numeral_3_eq_3 numeral_2_eq_2 state_at_tick_def settings_def boot_def idle_env_def
     tick_def time_time_def movement_def kill_gui_def Let_def)
  done

text \<open>
  Claim C9. On a pass evaluated in PASSIVE the ambient poller is not invoked: the ambient
  sensor is not read and the cached reading, its request time and the data labels are
  unchanged, whatever the motion sensor does.
\<close>

theorem no_poll_while_passive:
  "state_at_tick e s = PASSIVE \<Longrightarrow>
     ambient_calls (snd (tick e s)) = ambient_calls s
   \<and> data_set (snd (tick e s)) = data_set s
   \<and> last_ambient_temp_req_time (snd (tick e s)) = last_ambient_temp_req_time s
   \<and> data_string_pointers (snd (tick e s)) = data_string_pointers s"
proof -
  assume "state_at_tick e s = PASSIVE"
  then have p: "\<not> clock e (time_calls s) - start_time s < sleep_timeout_sec settings"
    by (simp add: state_at_tick_def split: if_splits)
  show ?thesis
    unfolding tick_passive[OF p]
    by (simp add: Let_def kill_gui_fields show_gui_fields split: outcome.splits)
qed

theorem no_poll_while_passive_witness:
  "state_at_tick idle_env (snd (main_init idle_env)) = PASSIVE
   \<and> ambient_calls (snd (tick idle_env (snd (main_init idle_env)))) = 1
   \<and> data_set (snd (tick idle_env (snd (main_init idle_env)))) = Dict 20 50"
proof -
  have p: "state_at_tick idle_env (snd (main_init idle_env)) = PASSIVE"
    unfolding main_init_idle by (simp add: state_at_tick_def idle_env_def boot_def settings_def)
  have i: "ambient_calls (snd (main_init idle_env)) = 1" "data_set (snd (main_init idle_env)) = Dict 20 50"
    unfolding main_init_idle by simp_all
  show ?thesis using no_poll_while_passive[OF p] p i by simp
qed

lemma quiet_mono: "quiet e s n \<Longrightarrow> m \<le> n \<Longrightarrow> quiet e s m"
  by (auto simp: quiet_def)

lemma quiet_tick:
  assumes "quiet e s (Suc n)"
  shows "clock e (time_calls s) - start_time s < sleep_timeout_sec settings"
    and "motion_sensor e (motion_calls s) \<noteq> Returns True"
    and "quiet e (snd (tick e s)) n"
proof -
  have "time_calls s \<in> set [time_calls s ..< time_calls s + 3 * Suc n]" by auto
  then show a: "clock e (time_calls s) - start_time s < sleep_timeout_sec settings"
    using assms unfolding quiet_def by blast
  have "motion_calls s \<in> set [motion_calls s ..< motion_calls s + Suc n]" by auto
  then show b: "motion_sensor e (motion_calls s) \<noteq> Returns True"
    using assms unfolding quiet_def by blast
  have st: "start_time (snd (tick e s)) = start_time s"
    and t1: "time_calls (snd (tick e s)) \<le> time_calls s + 3"
    by (rule tick_active_no_motion[OF a b])+
  have t0: "time_calls s < time_calls (snd (tick e s))"
    and m0: "motion_calls s \<le> motion_calls (snd (tick e s))"
    and m1: "motion_calls (snd (tick e s)) \<le> Suc (motion_calls s)"
    by (rule tick_active_fields[OF a])+
  show "quiet e (snd (tick e s)) n"
    unfolding quiet_def
  proof (intro conjI ballI)
    fix k assume "k \<in> set [time_calls (snd (tick e s)) ..< time_calls (snd (tick e s)) + 3 * n]"
    then have "k \<in> set [time_calls s ..< time_calls s + 3 * Suc n]" using t0 t1 by auto
    then show "clock e k - start_time (snd (tick e s)) < sleep_timeout_sec settings"
      using assms unfolding quiet_def st by blast
  next
    fix k assume "k \<in> set [motion_calls (snd (tick e s)) ..< motion_calls (snd (tick e s)) + n]"
    then have "k \<in> set [motion_calls s ..< motion_calls s + Suc n]" using m0 m1 by auto
    then show "motion_sensor e k \<noteq> Returns True"
      using assms unfolding quiet_def by blast
  qed
qed

lemma quiet_run:
  "quiet e s n \<Longrightarrow>
     start_time (snd (main_loop e n s)) = start_time s
   \<and> kill_gui_calls (snd (main_loop e n s)) = kill_gui_calls s
   \<and> show_gui_calls (snd (main_loop e n s)) = show_gui_calls s
   \<and> heat_image_panel (snd (main_loop e n s)) = heat_image_panel s
   \<and> data_panel (snd (main_loop e n s)) = data_panel s
   \<and> debug_panel (snd (main_loop e n s)) = debug_panel s
   \<and> time_calls s \<le> time_calls (snd (main_loop e n s))
   \<and> time_calls (snd (main_loop e n s)) \<le> time_calls s + 3 * n"
proof (induction n arbitrary: s)
  case 0
  then show ?case by simp
next
  case (Suc n)
  have a: "clock e (time_calls s) - start_time s < sleep_timeout_sec settings"
    and b: "motion_sensor e (motion_calls s) \<noteq> Returns True"
    and c: "quiet e (snd (tick e s)) n"
    by (rule quiet_tick[OF Suc.prems])+
  note f = tick_active_fields[OF a] tick_active_no_motion[OF a b]
  obtain r s1 where t: "tick e s = (r, s1)" by (cases "tick e s")
  show ?case
  proof (cases r)
    case (Returns u)
    have "main_loop e (Suc n) s = main_loop e n s1" by (simp add: t Returns)
    moreover note Suc.IH[OF c] 
    ultimately show ?thesis using f by (simp add: t)
  next
    case (Raises x)
    then have "main_loop e (Suc n) s = (r, s1)" by (simp add: t)
    then show ?thesis using f by (simp add: t)
  next
    case Blocks
    then have "main_loop e (Suc n) s = (r, s1)" by (simp add: t)
    then show ?thesis using f by (simp add: t)
  qed
qed

lemma quiet_stays_active:
  assumes "quiet e s n" and "m \<le> n"
  shows "start_time (snd (main_loop e m s)) = start_time s"
    and "kill_gui_calls (snd (main_loop e m s)) = kill_gui_calls s"
    and "heat_image_panel (snd (main_loop e m s)) = heat_image_panel s"
    and "data_panel (snd (main_loop e m s)) = data_panel s"
    and "debug_panel (snd (main_loop e m s)) = debug_panel s"
    and "m < n \<Longrightarrow> state_at_tick e (snd (main_loop e m s)) = ACTIVE"
proof -
  note r = quiet_run[OF quiet_mono[OF assms]]
  from r show "start_time (snd (main_loop e m s)) = start_time s"
    and "kill_gui_calls (snd (main_loop e m s)) = kill_gui_calls s"
    and "heat_image_panel (snd (main_loop e m s)) = heat_image_panel s"
    and "data_panel (snd (main_loop e m s)) = data_panel s"
    and "debug_panel (snd (main_loop e m s)) = debug_panel s"
    by simp_all
  assume "m < n"
  then have "time_calls (snd (main_loop e m s)) \<in> set [time_calls s ..< time_calls s + 3 * n]"
    using r by simp
  then have "clock e (time_calls (snd (main_loop e m s))) - start_time s < sleep_timeout_sec settings"
    using assms(1) unfolding quiet_def by blast
  then show "state_at_tick e (snd (main_loop e m s)) = ACTIVE"
    using r by (simp add: state_at_tick_def)
qed

text \<open>
  Claim C4. On a pass evaluated in PASSIVE on which motion is detected, the pass returns,
  all panels are shown by one call of \<open>show_gui\<close> and \<^verbatim>\<open>start_time\<close> is set to the clock
  read at that moment. On a pass evaluated in ACTIVE that reaches the motion test and
  detects motion, \<^verbatim>\<open>start_time\<close> is set to the clock read at that moment and the panels
  are neither hidden nor shown. From the state \<open>s'\<close> such a pass leaves, as long as every
  clock reading is less than the timeout after the new \<^verbatim>\<open>start_time\<close> and no motion is
  detected, every further pass is evaluated in ACTIVE: \<open>kill_gui\<close> is not called, the
  panels and \<^verbatim>\<open>start_time\<close> stay as they are.
\<close>

theorem motion_resets_idle_timer:
  "let s' = snd (tick e s) in
     (state_at_tick e s = PASSIVE \<and> motion_sensor e (motion_calls s) = Returns True \<longrightarrow>
        fst (tick e s) = Returns ()
      \<and> heat_image_panel s' \<and> data_panel s' \<and> debug_panel s'
      \<and> show_gui_calls s' = Suc (show_gui_calls s)
      \<and> time_calls s' = Suc (Suc (time_calls s))
      \<and> start_time s' = clock e (Suc (time_calls s)))
   \<and> (state_at_tick e s = ACTIVE \<and> motion_sensor e (motion_calls s) = Returns True
        \<and> fst (tick e s) = Returns () \<longrightarrow>
        start_time s' = clock e (time_calls s' - 1)
      \<and> Suc (time_calls s) < time_calls s' - 1
      \<and> kill_gui_calls s' = kill_gui_calls s \<and> show_gui_calls s' = show_gui_calls s
      \<and> heat_image_panel s' = heat_image_panel s \<and> data_panel s' = data_panel s
      \<and> debug_panel s' = debug_panel s)
   \<and> (quiet e s' n \<longrightarrow>
        (\<forall>m \<le> n.
            start_time (snd (main_loop e m s')) = start_time s'
          \<and> kill_gui_calls (snd (main_loop e m s')) = kill_gui_calls s'
          \<and> heat_image_panel (snd (main_loop e m s')) = heat_image_panel s'
          \<and> data_panel (snd (main_loop e m s')) = data_panel s'
          \<and> debug_panel (snd (main_loop e m s')) = debug_panel s'
          \<and> (m < n \<longrightarrow> state_at_tick e (snd (main_loop e m s')) = ACTIVE)))"
proof -
  have p: "fst (tick e s) = Returns ()
      \<and> heat_image_panel (snd (tick e s)) \<and> data_panel (snd (tick e s)) \<and> debug_panel (snd (tick e s))
      \<and> show_gui_calls (snd (tick e s)) = Suc (show_gui_calls s)
      \<and> time_calls (snd (tick e s)) = Suc (Suc (time_calls s))
      \<and> start_time (snd (tick e s)) = clock e (Suc (time_calls s))"
    if "state_at_tick e s = PASSIVE" "motion_sensor e (motion_calls s) = Returns True"
  proof -
    from that(1) have n: "\<not> clock e (time_calls s) - start_time s < sleep_timeout_sec settings"
      by (simp add: state_at_tick_def split: if_splits)
    show ?thesis unfolding tick_passive[OF n]
      by (simp add: Let_def that(2) show_gui_fields kill_gui_fields)
  qed
  have a: "start_time (snd (tick e s)) = clock e (time_calls (snd (tick e s)) - 1)
      \<and> Suc (time_calls s) < time_calls (snd (tick e s)) - 1
      \<and> kill_gui_calls (snd (tick e s)) = kill_gui_calls s \<and> show_gui_calls (snd (tick e s)) = show_gui_calls s
      \<and> heat_image_panel (snd (tick e s)) = heat_image_panel s \<and> data_panel (snd (tick e s)) = data_panel s
      \<and> debug_panel (snd (tick e s)) = debug_panel s"
    if "state_at_tick e s = ACTIVE" "motion_sensor e (motion_calls s) = Returns True"
      "fst (tick e s) = Returns ()"
  proof -
    from that(1) have n: "clock e (time_calls s) - start_time s < sleep_timeout_sec settings"
      by (simp add: state_at_tick_def split: if_splits)
    show ?thesis
      using tick_active_motion[OF n that(2) that(3)] tick_active_fields[OF n] by simp
  qed
  show ?thesis
    unfolding Let_def using p a quiet_stays_active[of e "snd (tick e s)" n] by blast
qed

theorem motion_resets_idle_timer_witness:
  "state_at_tick wake_env boot = PASSIVE
   \<and> motion_sensor wake_env (motion_calls boot) = Returns True
   \<and> show_gui_calls (snd (tick wake_env boot)) = 1
   \<and> start_time (snd (tick wake_env boot)) = 21
   \<and> quiet wake_env (snd (tick wake_env boot)) 2
   \<and> kill_gui_calls (snd (main_loop wake_env 2 (snd (tick wake_env boot)))) = 0
   \<and> state_at_tick wake_env (snd (main_loop wake_env 1 (snd (tick wake_env boot)))) = ACTIVE
   \<and> state_at_tick stir_env boot = ACTIVE
   \<and> motion_sensor stir_env (motion_calls boot) = Returns True
   \<and> fst (tick stir_env boot) = Returns ()
   \<and> start_time (snd (tick stir_env boot)) = clock stir_env 3"
proof -
  have p: "state_at_tick wake_env boot = PASSIVE"
    by (simp add: state_at_tick_def wake_env_def boot_def settings_def)
  have m: "motion_sensor wake_env (motion_calls boot) = Returns True"
    by (simp add: wake_env_def boot_def)
  have qt: "quiet wake_env (snd (tick wake_env boot)) 2"
    unfolding tick_boot_wake by (simp add: quiet_def boot_def wake_env_def settings_def)
  have a: "state_at_tick stir_env boot = ACTIVE"
    by (simp add: state_at_tick_def stir_env_def boot_def settings_def)
  have m2: "motion_sensor stir_env (motion_calls boot) = Returns True"
    by (simp add: stir_env_def boot_def)
  have r: "fst (tick stir_env boot) = Returns ()" by (simp add: tick_boot_stir)
  have k0: "kill_gui_calls (snd (tick wake_env boot)) = 0"
    unfolding tick_boot_wake by (simp add: boot_def)
  have c1: "clock wake_env (Suc (time_calls boot)) = 21" "Suc (show_gui_calls boot) = 1"
    by (simp_all add: wake_env_def boot_def)
  have t3: "time_calls (snd (tick stir_env boot)) - 1 = 3" by (simp add: tick_boot_stir)
  have le: "(2::nat) \<le> 2" "(1::nat) \<le> 2" "(1::nat) < 2" by simp_all
  note w = motion_resets_idle_timer[of wake_env boot 2, unfolded Let_def]
  have w1: "show_gui_calls (snd (tick wake_env boot)) = Suc (show_gui_calls boot)"
    and w2: "start_time (snd (tick wake_env boot)) = clock wake_env (Suc (time_calls boot))"
    using w p m by blast+
  have w3: "kill_gui_calls (snd (main_loop wake_env 2 (snd (tick wake_env boot))))
              = kill_gui_calls (snd (tick wake_env boot))"
    and w4: "state_at_tick wake_env (snd (main_loop wake_env 1 (snd (tick wake_env boot)))) = ACTIVE"
    using w qt le by blast+
  have v: "start_time (snd (tick stir_env boot)) = clock stir_env (time_calls (snd (tick stir_env boot)) - 1)"
    using motion_resets_idle_timer[of stir_env boot 0, unfolded Let_def] a m2 r by blast
  show ?thesis
    using p m qt a m2 r w1[unfolded c1] w2[unfolded c1] w3[unfolded k0] w4 v[unfolded t3] by blast
qed

lemma tick_frame_queue: "frame_queue (snd (tick e s)) = frame_queue s"
proof (cases "clock e (time_calls s) - start_time s < sleep_timeout_sec settings")
  case True
  then show ?thesis by (rule tick_active_fields)
next
  case False
  show ?thesis unfolding tick_passive[OF False]
    by (simp add: Let_def kill_gui_fields show_gui_fields split: outcome.splits)
qed

lemma callback_cases:
  "PTR_PY_FRAME_CALLBACK f Q = Returns Q
   \<or> (\<not> full Q \<and> PTR_PY_FRAME_CALLBACK f Q = Returns (Q\<lparr> queue := queue Q @ [view_of f] \<rparr>))"
  by (simp add: PTR_PY_FRAME_CALLBACK_def py_frame_callback_def Let_def put_def view_of_def)

lemma callback_full: "full Q \<Longrightarrow> PTR_PY_FRAME_CALLBACK f Q = Returns Q"
  using callback_cases[of f Q] by blast

lemma step_frame_queue:
  "frame_queue (snd (step e ev s)) = frame_queue s
   \<or> (\<not> full (frame_queue s) \<and> (\<exists>v. frame_queue (snd (step e ev s)) = (frame_queue s)\<lparr> queue := queue (frame_queue s) @ [v] \<rparr>))"
proof (cases ev)
  case (Frame f)
  from callback_cases[of f "frame_queue s"] show ?thesis
    by (auto simp: Frame)
next
  case Tick
  then show ?thesis by (simp add: tick_frame_queue)
qed

lemma run_frame_queue:
  "maxsize (frame_queue (snd (run e evs s))) = maxsize (frame_queue s)
   \<and> (\<exists>added. queue (frame_queue (snd (run e evs s))) = queue (frame_queue s) @ added)
   \<and> (full (frame_queue s) \<longrightarrow> frame_queue (snd (run e evs s)) = frame_queue s)
   \<and> (0 < maxsize (frame_queue s) \<and> qsize (frame_queue s) \<le> maxsize (frame_queue s) \<longrightarrow>
         qsize (frame_queue (snd (run e evs s))) \<le> maxsize (frame_queue s))"
proof (induction evs arbitrary: s)
  case Nil
  then show ?case by simp
next
  case (Cons ev evs)
  obtain r s1 where st: "step e ev s = (r, s1)" by (cases "step e ev s")
  from step_frame_queue[of e ev s]
  have one: "maxsize (frame_queue s1) = maxsize (frame_queue s)
     \<and> (\<exists>added. queue (frame_queue s1) = queue (frame_queue s) @ added)
     \<and> (full (frame_queue s) \<longrightarrow> frame_queue s1 = frame_queue s)
     \<and> (0 < maxsize (frame_queue s) \<and> qsize (frame_queue s) \<le> maxsize (frame_queue s) \<longrightarrow>
           qsize (frame_queue s1) \<le> maxsize (frame_queue s))"
    by (auto simp: st full_def qsize_def)
  show ?case
  proof (cases r)
    case (Returns u)
    then have "run e (ev # evs) s = run e evs s1" by (simp add: st)
    with Cons.IH[of s1] one show ?thesis by (auto simp: )
  next
    case (Raises x)
    then have "run e (ev # evs) s = (r, s1)" by (simp add: st)
    with one show ?thesis by simp
  next
    case Blocks
    then have "run e (ev # evs) s = (r, s1)" by (simp add: st)
    with one show ?thesis by simp
  qed
qed

text \<open>
  Claim C8. A pass of the loop leaves the queue as it is (the loop has no dequeue). Over
  any run of callbacks and passes the queue only grows at its end: its contents before the
  run are a prefix of its contents after, so the occupancy never decreases. Once the queue
  is full it stays the same for ever and every frame delivered is dropped. Starting from
  the queue of line 42 the occupancy never exceeds 10.
\<close>

theorem loop_never_pops_buffer:
  "frame_queue (snd (tick e s)) = frame_queue s
   \<and> maxsize (frame_queue (snd (run e evs s))) = maxsize (frame_queue s)
   \<and> (\<exists>added. queue (frame_queue (snd (run e evs s))) = queue (frame_queue s) @ added)
   \<and> qsize (frame_queue s) \<le> qsize (frame_queue (snd (run e evs s)))
   \<and> (full (frame_queue s) \<longrightarrow>
         frame_queue (snd (run e evs s)) = frame_queue s
       \<and> PTR_PY_FRAME_CALLBACK f (frame_queue s) = Returns (frame_queue s))
   \<and> (frame_queue s = q \<longrightarrow> qsize (frame_queue (snd (run e evs s))) \<le> BUF_SIZE)"
proof -
  note r = run_frame_queue[of e evs s]
  have mono: "qsize (frame_queue s) \<le> qsize (frame_queue (snd (run e evs s)))"
    using r by (auto simp: qsize_def)
  have bound: "qsize (frame_queue (snd (run e evs s))) \<le> BUF_SIZE" if "frame_queue s = q"
    using r that by (simp add: q_def Queue_init_def qsize_def BUF_SIZE_def)
  show ?thesis using r mono bound callback_full tick_frame_queue by blast
qed

lemma full_full_queue: "full full_queue"
  by (simp add: full_def full_queue_def qsize_def BUF_SIZE_def unit_frames_def)

theorem loop_never_pops_buffer_witness:
  "full full_queue
   \<and> frame_queue (snd (run idle_env [Frame pair_frame, Tick, Frame pair_frame] (boot\<lparr> frame_queue := full_queue \<rparr>))) = full_queue
   \<and> PTR_PY_FRAME_CALLBACK pair_frame full_queue = Returns full_queue
   \<and> frame_queue boot = q
   \<and> qsize (frame_queue (snd (run idle_env [Frame pair_frame, Tick, Frame pair_frame] boot))) \<le> BUF_SIZE"
proof -
  let ?evs = "[Frame pair_frame, Tick, Frame pair_frame]"
  have b: "frame_queue boot = q" by (simp add: boot_def)
  have f: "frame_queue (boot\<lparr> frame_queue := full_queue \<rparr>) = full_queue" by simp
  have one: "frame_queue (snd (run idle_env ?evs (boot\<lparr> frame_queue := full_queue \<rparr>))) = full_queue
      \<and> PTR_PY_FRAME_CALLBACK pair_frame full_queue = Returns full_queue"
    using loop_never_pops_buffer[of idle_env "boot\<lparr> frame_queue := full_queue \<rparr>" ?evs pair_frame, unfolded f]
      full_full_queue by blast
  have two: "qsize (frame_queue (snd (run idle_env ?evs boot))) \<le> BUF_SIZE"
    using loop_never_pops_buffer[of idle_env boot ?evs pair_frame] b by blast
  show ?thesis using full_full_queue one two b by blast
qed

end
